theory Spec2Isabelle
  imports Main
begin

section \<open>The CDK stacks of mcp-atlassian\<close>

text \<open>
  The repository holds two versions of the class \<open>McpAtlassianStack\<close>:
  \<^item> \<open>cdk/lib/mcp-atlassian-stack.ts\<close>: the service is reachable only inside the VPC and
    reads its Atlassian credentials from a Secrets Manager secret;
  \<^item> the load-balanced version: an internet-facing Application Load Balancer in front
    of the service, no secret, the credentials travel with each request.

  Each constructor is straight-line code with one branch (import a VPC or create one).
  Every \<open>new X(this, id, props)\<close> and every \<open>addX(id, props)\<close> adds a child construct to
  the stack; \<open>addIngressRule\<close>, \<open>connections.allowFrom\<close>, \<open>grantRead\<close>,
  \<open>addDefaultCloudMapNamespace\<close> and \<open>enableCloudMap\<close> change constructs that exist.
  The model threads a record of the stack through these calls, in the order of the
  source. A props object is a record with the properties the source passes; a
  reference to another construct is the id of that construct. What the CDK library
  and the AWS control plane do with the props is not part of the repository and not
  part of the model. The app creates one stack, with the account and the region of
  its environment; the stacks do not read them, and that call is not modelled.

  Strings are byte strings: the em dash of two descriptions is its three UTF-8 bytes.
\<close>

subsection \<open>Enumerations of the CDK library used by the stacks\<close>

datatype SubnetType = PRIVATE_ISOLATED | PRIVATE_WITH_EGRESS | PUBLIC

datatype RemovalPolicy = DESTROY | RETAIN | SNAPSHOT

datatype TagStatus = ANY | TAGGED | UNTAGGED

datatype Platform = LINUX_AMD64 | LINUX_ARM64

datatype ContainerInsights = DISABLED | ENABLED | ENHANCED

datatype RetentionDays = ONE_WEEK | TWO_WEEKS | ONE_MONTH

datatype OperatingSystemFamily = LINUX

datatype CpuArchitecture = ARM64 | X86_64

datatype Protocol = TCP | UDP

datatype ApplicationProtocol = HTTP | HTTPS

text \<open>\<open>cdk.Duration.seconds(n)\<close>.\<close>

datatype Duration = seconds nat

text \<open>\<open>ec2.IpAddresses.cidr(block)\<close>.\<close>

datatype IpAddresses = cidr string

text \<open>\<open>ec2.Peer.ipv4(block)\<close>, or a construct passed as the peer of a connection.\<close>

datatype Peer = ipv4 string | connectable string

text \<open>\<open>ec2.Port.tcp(n)\<close>.\<close>

datatype Port = tcp nat

text \<open>\<open>new iam.ServicePrincipal(service)\<close>.\<close>

datatype Principal = ServicePrincipal string

text \<open>\<open>iam.ManagedPolicy.fromAwsManagedPolicyName(name)\<close>.\<close>

datatype ManagedPolicy = fromAwsManagedPolicyName string

text \<open>\<open>ecs.Secret.fromSecretsManager(secret, field)\<close>.\<close>

datatype EcsSecret = fromSecretsManager string string

text \<open>
  A string value that may hold attributes the provider assigns at deployment
  (\<open>secret.secretArn\<close>, \<open>repo.repositoryUri\<close>): a sequence of literal text and of
  attributes of constructs.
\<close>

datatype Fragment = Text string | Attr string string

subsection \<open>Props\<close>

record VpcLookupOptions =
  lookup_vpcName :: string

record SubnetConfiguration =
  cidrMask :: nat
  subnet_name :: string
  subnetType :: SubnetType

record VpcProps =
  vpcName :: string
  ipAddresses :: IpAddresses
  maxAzs :: nat
  natGateways :: nat
  subnetConfiguration :: "SubnetConfiguration list"

record SecretStringGenerator =
  secretStringTemplate :: string
  generateStringKey :: string

record SecretProps =
  secretName :: string
  secret_description :: string
  generateSecretString :: SecretStringGenerator

record LifecycleRule =
  tagStatus :: TagStatus
  lifecycle_description :: string
  maxImageCount :: nat

record RepositoryProps =
  repositoryName :: string
  repository_removalPolicy :: RemovalPolicy
  imageScanOnPush :: bool
  lifecycleRules :: "LifecycleRule list"

text \<open>
  \<open>directory\<close> holds the arguments of \<open>path.join(__dirname, '../../')\<close>; \<open>__dirname\<close> is
  the directory of the stack's file.
\<close>

record DockerImageAssetProps =
  directory :: "string list"
  dockerfile :: string
  platform :: Platform
  exclude :: "string list"

record ClusterProps =
  clusterName :: string
  cluster_vpc :: string
  enableFargateCapacityProviders :: bool
  containerInsightsV2 :: ContainerInsights

record SecurityGroupProps =
  securityGroupName :: string
  securityGroup_description :: string
  securityGroup_vpc :: string

record LogGroupProps =
  logGroupName :: string
  logGroup_removalPolicy :: RemovalPolicy
  retention :: RetentionDays

record RoleProps =
  assumedBy :: Principal
  managedPolicies :: "ManagedPolicy list"

record RuntimePlatform =
  operatingSystemFamily :: OperatingSystemFamily
  cpuArchitecture :: CpuArchitecture

record FargateTaskDefinitionProps =
  memoryLimitMiB :: nat
  cpu :: nat
  executionRole :: string
  taskRole :: string
  runtimePlatform :: RuntimePlatform

record AwsLogDriverProps =
  streamPrefix :: string
  logGroup :: string

record PortMapping =
  containerPort :: nat
  portMapping_protocol :: Protocol

record HealthCheck =
  healthCheck_command :: "string list"
  healthCheck_interval :: Duration
  timeout :: Duration
  retries :: nat
  startPeriod :: Duration

text \<open>
  \<open>secrets\<close> and \<open>environment\<close> are optional: each version of the stack passes one of
  them and leaves the other out.
\<close>

record ContainerDefinitionOptions =
  container_image :: string
  containerName :: string
  logging :: AwsLogDriverProps
  portMappings :: "PortMapping list"
  secrets :: "(string \<times> EcsSecret) list option"
  environment :: "(string \<times> string) list option"
  command :: "string list"
  healthCheck :: HealthCheck

record SubnetSelection =
  selection_subnetType :: SubnetType

record DeploymentCircuitBreaker =
  enable :: bool
  rollback :: bool

text \<open>
  \<open>assignPublicIp\<close> is an optional property of the service that neither version
  passes; it is in the record so that its absence can be stated.
\<close>

record FargateServiceProps =
  cluster :: string
  serviceName :: string
  taskDefinition :: string
  desiredCount :: nat
  securityGroups :: "string list"
  vpcSubnets :: SubnetSelection
  enableExecuteCommand :: bool
  circuitBreaker :: DeploymentCircuitBreaker
  assignPublicIp :: "bool option"

record ApplicationLoadBalancerProps =
  loadBalancerName :: string
  loadBalancer_vpc :: string
  internetFacing :: bool

record BaseApplicationListenerProps =
  listener_port :: nat
  listener_protocol :: ApplicationProtocol

record TargetGroupHealthCheck =
  path :: string
  targetGroup_interval :: Duration
  healthyThresholdCount :: nat
  unhealthyThresholdCount :: nat

record AddApplicationTargetsProps =
  targets_port :: nat
  targets_protocol :: ApplicationProtocol
  targets :: "string list"
  targets_healthCheck :: TargetGroupHealthCheck

record CloudMapNamespaceOptions =
  namespace_name :: string
  namespace_vpc :: string

record CloudMapOptions =
  cloudMap_name :: string

record CfnOutputProps =
  output_value :: "Fragment list"
  output_description :: string

subsection \<open>Constructs and the stack\<close>

text \<open>
  One constructor per construct class. \<open>ContainerDefinition\<close>, \<open>ApplicationListener\<close>
  and \<open>ApplicationTargetGroup\<close> carry the construct they were added to
  (\<open>taskDef.addContainer\<close>, \<open>alb.addListener\<close>, \<open>listener.addTargets\<close>).
\<close>

datatype Construct =
    ImportedVpc VpcLookupOptions
  | Vpc VpcProps
  | Secret SecretProps
  | Repository RepositoryProps
  | DockerImageAsset DockerImageAssetProps
  | Cluster ClusterProps
  | SecurityGroup SecurityGroupProps
  | LogGroup LogGroupProps
  | Role RoleProps
  | FargateTaskDefinition FargateTaskDefinitionProps
  | ContainerDefinition string ContainerDefinitionOptions
  | FargateService FargateServiceProps
  | ApplicationLoadBalancer ApplicationLoadBalancerProps
  | ApplicationListener string BaseApplicationListenerProps
  | ApplicationTargetGroup string AddApplicationTargetsProps
  | CfnOutput CfnOutputProps

text \<open>
  An ingress rule: the security group or connectable that receives the traffic, the
  peer it comes from, the port and the description.
\<close>

record IngressRule =
  rule_target :: string
  rule_peer :: Peer
  rule_port :: Port
  rule_description :: string

text \<open>A read grant on a secret: the secret and the role that may read it.\<close>

record Grant =
  grant_secret :: string
  grantee :: string

record Stack =
  children :: "(string \<times> Construct) list"
  ingressRules :: "IngressRule list"
  grants :: "Grant list"
  cloudMapNamespaces :: "(string \<times> CloudMapNamespaceOptions) list"
  cloudMapServices :: "(string \<times> CloudMapOptions) list"

definition emptyStack :: Stack where
  "emptyStack = \<lparr>children = [], ingressRules = [], grants = [],
     cloudMapNamespaces = [], cloudMapServices = []\<rparr>"

text \<open>\<open>new X(this, id, props)\<close>, \<open>y.addX(id, props)\<close>: a new child, after the others.\<close>

definition addChild :: "string \<Rightarrow> Construct \<Rightarrow> Stack \<Rightarrow> Stack" where
  "addChild cid c s = s\<lparr>children := children s @ [(cid, c)]\<rparr>"

text \<open>\<open>sg.addIngressRule(peer, port, description)\<close>.\<close>

definition addIngressRule :: "string \<Rightarrow> Peer \<Rightarrow> Port \<Rightarrow> string \<Rightarrow> Stack \<Rightarrow> Stack" where
  "addIngressRule sg p pt d s =
     s\<lparr>ingressRules := ingressRules s @
        [\<lparr>rule_target = sg, rule_peer = p, rule_port = pt, rule_description = d\<rparr>]\<rparr>"

text \<open>\<open>x.connections.allowFrom(other, port, description)\<close>.\<close>

definition allowFrom :: "string \<Rightarrow> string \<Rightarrow> Port \<Rightarrow> string \<Rightarrow> Stack \<Rightarrow> Stack" where
  "allowFrom x other pt d s =
     s\<lparr>ingressRules := ingressRules s @
        [\<lparr>rule_target = x, rule_peer = connectable other, rule_port = pt,
          rule_description = d\<rparr>]\<rparr>"

text \<open>\<open>secret.grantRead(role)\<close>.\<close>

definition grantRead :: "string \<Rightarrow> string \<Rightarrow> Stack \<Rightarrow> Stack" where
  "grantRead sec r s = s\<lparr>grants := grants s @ [\<lparr>grant_secret = sec, grantee = r\<rparr>]\<rparr>"

text \<open>\<open>cluster.addDefaultCloudMapNamespace(options)\<close>.\<close>

definition addDefaultCloudMapNamespace ::
    "string \<Rightarrow> CloudMapNamespaceOptions \<Rightarrow> Stack \<Rightarrow> Stack" where
  "addDefaultCloudMapNamespace cl opts s =
     s\<lparr>cloudMapNamespaces := cloudMapNamespaces s @ [(cl, opts)]\<rparr>"

text \<open>\<open>service.enableCloudMap(options)\<close>.\<close>

definition enableCloudMap :: "string \<Rightarrow> CloudMapOptions \<Rightarrow> Stack \<Rightarrow> Stack" where
  "enableCloudMap sv opts s = s\<lparr>cloudMapServices := cloudMapServices s @ [(sv, opts)]\<rparr>"

subsection \<open>JavaScript helpers\<close>

text \<open>
  The context of the app is a key-value store: \<open>this.node.tryGetContext(key)\<close> is the
  value of the key, or \<open>undefined\<close> when the key has none. Both keys the stacks read
  are typed as strings.
\<close>

type_synonym Context = "string \<rightharpoonup> string"

definition tryGetContext :: "Context \<Rightarrow> string \<Rightarrow> string option" where
  "tryGetContext ctx key = ctx key"

text \<open>
  The condition of \<open>if (v)\<close> for a value that is a string, \<open>null\<close> or \<open>undefined\<close>:
  false for \<open>null\<close>, \<open>undefined\<close> and the empty string.
\<close>

definition truthy :: "string option \<Rightarrow> bool" where
  "truthy v = (case v of None \<Rightarrow> False | Some str \<Rightarrow> str \<noteq> [])"

text \<open>\<open>v ?? d\<close>: \<open>d\<close> only when \<open>v\<close> is \<open>null\<close> or \<open>undefined\<close>.\<close>

definition nullish :: "string option \<Rightarrow> string \<Rightarrow> string" where
  "nullish v d = (case v of None \<Rightarrow> d | Some str \<Rightarrow> str)"

definition digit_char :: "nat \<Rightarrow> char" where
  "digit_char d = ''0123456789'' ! (d mod 10)"

text \<open>\<open>n.toString()\<close> for a natural number: its decimal digits.\<close>

function toString :: "nat \<Rightarrow> string" where
  "toString n = (if n < 10 then [digit_char n] else toString (n div 10) @ [digit_char n])"
  by pat_completeness auto
termination
  by (relation "measure id") auto

declare toString.simps [simp del]

text \<open>
  \<open>JSON.stringify\<close> of an object whose values are strings: the members in order,
  keys and values quoted, the quote and the backslash escaped (no key or value of
  the stacks holds a control character).
\<close>

definition json_escape :: "char \<Rightarrow> string" where
  "json_escape c =
     (if c = CHR 0x22 then [CHR 0x5C, CHR 0x22]
      else if c = CHR 0x5C then [CHR 0x5C, CHR 0x5C]
      else [c])"

definition json_string :: "string \<Rightarrow> string" where
  "json_string str = [CHR 0x22] @ concat (map json_escape str) @ [CHR 0x22]"

fun json_members :: "(string \<times> string) list \<Rightarrow> string" where
  "json_members [] = []"
| "json_members [(k, v)] = json_string k @ '':'' @ json_string v"
| "json_members ((k, v) # kvs) =
     json_string k @ '':'' @ json_string v @ '','' @ json_members kvs"

definition JSON_stringify :: "(string \<times> string) list \<Rightarrow> string" where
  "JSON_stringify obj = ''{'' @ json_members obj @ ''}''"

definition em_dash :: string where
  "em_dash = [CHR 0xE2, CHR 0x80, CHR 0x94]"

subsection \<open>The stack of \<open>cdk/lib/mcp-atlassian-stack.ts\<close>\<close>

text \<open>
  The props object of each call of the constructor is a definition of its own, named
  after the id of the construct; a props object that mentions a local variable of the
  constructor takes it as an argument. The constructor follows.
\<close>

definition MCP_PORT :: nat where
  "MCP_PORT = 9000"

definition ImportedVpc_props :: "string \<Rightarrow> VpcLookupOptions" where
  "ImportedVpc_props existingVpcName = \<lparr>lookup_vpcName = existingVpcName\<rparr>"

definition McpVpc_props :: VpcProps where
  "McpVpc_props =
     \<lparr>vpcName = ''mcp-atlassian-vpc'',
      ipAddresses = cidr ''10.1.0.0/16'',
      maxAzs = 2,
      natGateways = 1,
      subnetConfiguration =
        [\<lparr>cidrMask = 24, subnet_name = ''mcp-public'', subnetType = PUBLIC\<rparr>,
         \<lparr>cidrMask = 24, subnet_name = ''mcp-private'',
          subnetType = PRIVATE_WITH_EGRESS\<rparr>]\<rparr>"

definition AtlassianCredentials_props :: SecretProps where
  "AtlassianCredentials_props =
     \<lparr>secretName = ''mcp-atlassian/credentials'',
      secret_description = ''Atlassian API credentials for mcp-atlassian server'',
      generateSecretString =
        \<lparr>secretStringTemplate = JSON_stringify
           [(''JIRA_URL'', ''https://your-domain.atlassian.net''),
            (''JIRA_USERNAME'', ''user@company.com''),
            (''JIRA_API_TOKEN'', ''CHANGE_ME''),
            (''CONFLUENCE_URL'', ''https://your-domain.atlassian.net/wiki''),
            (''CONFLUENCE_USERNAME'', ''user@company.com''),
            (''CONFLUENCE_API_TOKEN'', ''CHANGE_ME'')],
          generateStringKey = ''_rotation_placeholder''\<rparr>\<rparr>"

definition McpAtlassianRepo_props :: RepositoryProps where
  "McpAtlassianRepo_props =
     \<lparr>repositoryName = ''mcp-atlassian'',
      repository_removalPolicy = RETAIN,
      imageScanOnPush = True,
      lifecycleRules =
        [\<lparr>tagStatus = ANY, lifecycle_description = ''Keep last 10 images'',
          maxImageCount = 10\<rparr>]\<rparr>"

definition McpAtlassianImage_props :: DockerImageAssetProps where
  "McpAtlassianImage_props =
     \<lparr>directory = [''__dirname'', ''../../''],
      dockerfile = ''Dockerfile'',
      platform = LINUX_AMD64,
      exclude = [''cdk'', ''cdk.out'', ''node_modules'', ''.git'', ''.github'']\<rparr>"

definition McpCluster_props :: "string \<Rightarrow> ClusterProps" where
  "McpCluster_props vpc =
     \<lparr>clusterName = ''mcp-atlassian-cluster'',
      cluster_vpc = vpc,
      enableFargateCapacityProviders = True,
      containerInsightsV2 = ENABLED\<rparr>"

definition McpSecurityGroup_props :: "string \<Rightarrow> SecurityGroupProps" where
  "McpSecurityGroup_props vpc =
     \<lparr>securityGroupName = ''mcp-atlassian-sg'',
      securityGroup_description =
        ''MCP Atlassian server '' @ em_dash @ '' inbound from LangBuilder only'',
      securityGroup_vpc = vpc\<rparr>"

definition McpLogGroup_props :: LogGroupProps where
  "McpLogGroup_props =
     \<lparr>logGroupName = ''/ecs/mcp-atlassian'',
      logGroup_removalPolicy = DESTROY,
      retention = TWO_WEEKS\<rparr>"

definition TaskExecutionRole_props :: RoleProps where
  "TaskExecutionRole_props =
     \<lparr>assumedBy = ServicePrincipal ''ecs-tasks.amazonaws.com'',
      managedPolicies =
        [fromAwsManagedPolicyName ''service-role/AmazonECSTaskExecutionRolePolicy'']\<rparr>"

definition TaskRole_props :: RoleProps where
  "TaskRole_props =
     \<lparr>assumedBy = ServicePrincipal ''ecs-tasks.amazonaws.com'',
      managedPolicies = []\<rparr>"

definition McpTaskDef_props :: "string \<Rightarrow> string \<Rightarrow> FargateTaskDefinitionProps" where
  "McpTaskDef_props taskExecutionRole taskRole' =
     \<lparr>memoryLimitMiB = 512,
      cpu = 256,
      executionRole = taskExecutionRole,
      taskRole = taskRole',
      runtimePlatform =
        \<lparr>operatingSystemFamily = LINUX, cpuArchitecture = X86_64\<rparr>\<rparr>"

definition container_props ::
    "string \<Rightarrow> string \<Rightarrow> string \<Rightarrow> ContainerDefinitionOptions" where
  "container_props dockerImage logGroup' atlassianSecret =
     \<lparr>container_image = dockerImage,
      containerName = ''mcp-atlassian'',
      logging = \<lparr>streamPrefix = ''mcp'', logGroup = logGroup'\<rparr>,
      portMappings = [\<lparr>containerPort = MCP_PORT, portMapping_protocol = TCP\<rparr>],
      secrets = Some
        [(''JIRA_URL'', fromSecretsManager atlassianSecret ''JIRA_URL''),
         (''JIRA_USERNAME'', fromSecretsManager atlassianSecret ''JIRA_USERNAME''),
         (''JIRA_API_TOKEN'', fromSecretsManager atlassianSecret ''JIRA_API_TOKEN''),
         (''CONFLUENCE_URL'', fromSecretsManager atlassianSecret ''CONFLUENCE_URL''),
         (''CONFLUENCE_USERNAME'',
            fromSecretsManager atlassianSecret ''CONFLUENCE_USERNAME''),
         (''CONFLUENCE_API_TOKEN'',
            fromSecretsManager atlassianSecret ''CONFLUENCE_API_TOKEN'')],
      environment = None,
      command = [''--transport'', ''http'', ''--port'', toString MCP_PORT],
      healthCheck =
        \<lparr>healthCheck_command =
           [''CMD-SHELL'',
            ''wget -qO- http://localhost:'' @ toString MCP_PORT @ ''/mcp || exit 1''],
         healthCheck_interval = seconds 30,
         timeout = seconds 5,
         retries = 3,
         startPeriod = seconds 15\<rparr>\<rparr>"

definition McpService_props :: "string \<Rightarrow> string \<Rightarrow> string \<Rightarrow> FargateServiceProps" where
  "McpService_props cluster' taskDef mcpSG =
     \<lparr>cluster = cluster',
      serviceName = ''mcp-atlassian'',
      taskDefinition = taskDef,
      desiredCount = 1,
      securityGroups = [mcpSG],
      vpcSubnets = \<lparr>selection_subnetType = PRIVATE_WITH_EGRESS\<rparr>,
      enableExecuteCommand = True,
      circuitBreaker = \<lparr>enable = True, rollback = True\<rparr>,
      assignPublicIp = None\<rparr>"

definition SecretArn_props :: "string \<Rightarrow> CfnOutputProps" where
  "SecretArn_props atlassianSecret =
     \<lparr>output_value = [Attr atlassianSecret ''secretArn''],
      output_description =
        ''ARN of the Atlassian credentials secret '' @ em_dash @
        '' update via AWS Console or CLI''\<rparr>"

definition namespace_options :: "string \<Rightarrow> CloudMapNamespaceOptions" where
  "namespace_options vpc = \<lparr>namespace_name = ''mcp.internal'', namespace_vpc = vpc\<rparr>"

definition cloudMap_options :: CloudMapOptions where
  "cloudMap_options = \<lparr>cloudMap_name = ''atlassian''\<rparr>"

definition ServiceDiscoveryEndpoint_props :: CfnOutputProps where
  "ServiceDiscoveryEndpoint_props =
     \<lparr>output_value = [Text (''atlassian.mcp.internal:'' @ toString MCP_PORT)],
      output_description =
        ''Internal DNS endpoint for the MCP server (from within the VPC)''\<rparr>"

definition EcrRepoUri_props :: "string \<Rightarrow> CfnOutputProps" where
  "EcrRepoUri_props ecrRepo =
     \<lparr>output_value = [Attr ecrRepo ''repositoryUri''],
      output_description = ''ECR repository URI for pushing custom images''\<rparr>"

definition ClusterName_props :: "string \<Rightarrow> CfnOutputProps" where
  "ClusterName_props cluster' =
     \<lparr>output_value = [Attr cluster' ''clusterName''],
      output_description =
        ''ECS cluster name (for aws ecs execute-command debugging)''\<rparr>"

definition McpAtlassianStack :: "Context \<Rightarrow> Stack" where
  "McpAtlassianStack ctx =
    (let existingVpcName = tryGetContext ctx ''existingVpcName'';
         allowedCidr = nullish (tryGetContext ctx ''allowedCidr'') ''10.0.0.0/16'';
         s = emptyStack;
         (vpc, s) =
           (if truthy existingVpcName
            then (''ImportedVpc'',
                  addChild ''ImportedVpc''
                    (ImportedVpc (ImportedVpc_props (the existingVpcName))) s)
            else (''McpVpc'', addChild ''McpVpc'' (Vpc McpVpc_props) s));
         atlassianSecret = ''AtlassianCredentials'';
         s = addChild atlassianSecret (Secret AtlassianCredentials_props) s;
         ecrRepo = ''McpAtlassianRepo'';
         s = addChild ecrRepo (Repository McpAtlassianRepo_props) s;
         dockerImage = ''McpAtlassianImage'';
         s = addChild dockerImage (DockerImageAsset McpAtlassianImage_props) s;
         cluster = ''McpCluster'';
         s = addChild cluster (Cluster (McpCluster_props vpc)) s;
         mcpSG = ''McpSecurityGroup'';
         s = addChild mcpSG (SecurityGroup (McpSecurityGroup_props vpc)) s;
         s = addIngressRule mcpSG (ipv4 allowedCidr) (tcp MCP_PORT)
               ''Allow MCP traffic from LangBuilder'' s;
         logGroup = ''McpLogGroup'';
         s = addChild logGroup (LogGroup McpLogGroup_props) s;
         taskExecutionRole = ''TaskExecutionRole'';
         s = addChild taskExecutionRole (Role TaskExecutionRole_props) s;
         s = grantRead atlassianSecret taskExecutionRole s;
         taskRole = ''TaskRole'';
         s = addChild taskRole (Role TaskRole_props) s;
         taskDef = ''McpTaskDef'';
         s = addChild taskDef
               (FargateTaskDefinition (McpTaskDef_props taskExecutionRole taskRole)) s;
         s = addChild ''mcp-atlassian''
               (ContainerDefinition taskDef
                  (container_props dockerImage logGroup atlassianSecret)) s;
         service = ''McpService'';
         s = addChild service (FargateService (McpService_props cluster taskDef mcpSG)) s;
         s = addDefaultCloudMapNamespace cluster (namespace_options vpc) s;
         s = enableCloudMap service cloudMap_options s;
         s = addChild ''SecretArn'' (CfnOutput (SecretArn_props atlassianSecret)) s;
         s = addChild ''ServiceDiscoveryEndpoint''
               (CfnOutput ServiceDiscoveryEndpoint_props) s;
         s = addChild ''EcrRepoUri'' (CfnOutput (EcrRepoUri_props ecrRepo)) s;
         s = addChild ''ClusterName'' (CfnOutput (ClusterName_props cluster)) s
     in s)"

subsection \<open>The load-balanced stack\<close>

text \<open>
  The second version of the class: no secret and no grant, the container configured
  by its environment, and the load balancer, its listener and its targets after the
  service. It declares the same \<open>MCP_PORT\<close>. Its props objects carry the suffix
  \<open>_alb\<close> where the first version has a construct of the same id.
\<close>

definition ImportedVpc_props_alb :: "string \<Rightarrow> VpcLookupOptions" where
  "ImportedVpc_props_alb existingVpcName = \<lparr>lookup_vpcName = existingVpcName\<rparr>"

definition McpVpc_props_alb :: VpcProps where
  "McpVpc_props_alb =
     \<lparr>vpcName = ''mcp-atlassian-vpc'',
      ipAddresses = cidr ''10.1.0.0/16'',
      maxAzs = 2,
      natGateways = 1,
      subnetConfiguration =
        [\<lparr>cidrMask = 24, subnet_name = ''mcp-public'', subnetType = PUBLIC\<rparr>,
         \<lparr>cidrMask = 24, subnet_name = ''mcp-private'',
          subnetType = PRIVATE_WITH_EGRESS\<rparr>]\<rparr>"

definition McpAtlassianRepo_props_alb :: RepositoryProps where
  "McpAtlassianRepo_props_alb =
     \<lparr>repositoryName = ''mcp-atlassian'',
      repository_removalPolicy = DESTROY,
      imageScanOnPush = True,
      lifecycleRules =
        [\<lparr>tagStatus = ANY, lifecycle_description = ''Keep last 10 images'',
          maxImageCount = 10\<rparr>]\<rparr>"

definition McpAtlassianImage_props_alb :: DockerImageAssetProps where
  "McpAtlassianImage_props_alb =
     \<lparr>directory = [''__dirname'', ''../../''],
      dockerfile = ''Dockerfile'',
      platform = LINUX_AMD64,
      exclude = [''cdk'', ''cdk.out'', ''node_modules'', ''.git'', ''.github'']\<rparr>"

definition McpCluster_props_alb :: "string \<Rightarrow> ClusterProps" where
  "McpCluster_props_alb vpc =
     \<lparr>clusterName = ''mcp-atlassian-cluster'',
      cluster_vpc = vpc,
      enableFargateCapacityProviders = True,
      containerInsightsV2 = ENABLED\<rparr>"

definition McpSecurityGroup_props_alb :: "string \<Rightarrow> SecurityGroupProps" where
  "McpSecurityGroup_props_alb vpc =
     \<lparr>securityGroupName = ''mcp-atlassian-sg'',
      securityGroup_description =
        ''MCP Atlassian server - inbound from LangBuilder only'',
      securityGroup_vpc = vpc\<rparr>"

definition McpLogGroup_props_alb :: LogGroupProps where
  "McpLogGroup_props_alb =
     \<lparr>logGroupName = ''/ecs/mcp-atlassian'',
      logGroup_removalPolicy = DESTROY,
      retention = TWO_WEEKS\<rparr>"

definition TaskExecutionRole_props_alb :: RoleProps where
  "TaskExecutionRole_props_alb =
     \<lparr>assumedBy = ServicePrincipal ''ecs-tasks.amazonaws.com'',
      managedPolicies =
        [fromAwsManagedPolicyName ''service-role/AmazonECSTaskExecutionRolePolicy'']\<rparr>"

definition TaskRole_props_alb :: RoleProps where
  "TaskRole_props_alb =
     \<lparr>assumedBy = ServicePrincipal ''ecs-tasks.amazonaws.com'',
      managedPolicies = []\<rparr>"

definition McpTaskDef_props_alb :: "string \<Rightarrow> string \<Rightarrow> FargateTaskDefinitionProps" where
  "McpTaskDef_props_alb taskExecutionRole taskRole' =
     \<lparr>memoryLimitMiB = 512,
      cpu = 256,
      executionRole = taskExecutionRole,
      taskRole = taskRole',
      runtimePlatform =
        \<lparr>operatingSystemFamily = LINUX, cpuArchitecture = X86_64\<rparr>\<rparr>"

definition container_props_alb :: "string \<Rightarrow> string \<Rightarrow> ContainerDefinitionOptions" where
  "container_props_alb dockerImage logGroup' =
     \<lparr>container_image = dockerImage,
      containerName = ''mcp-atlassian'',
      logging = \<lparr>streamPrefix = ''mcp'', logGroup = logGroup'\<rparr>,
      portMappings = [\<lparr>containerPort = MCP_PORT, portMapping_protocol = TCP\<rparr>],
      secrets = None,
      environment = Some
        [(''ATLASSIAN_OAUTH_ENABLE'', ''true''),
         (''JIRA_URL'', ''https://cloudgeometry.atlassian.net''),
         (''CONFLUENCE_URL'', ''https://cloudgeometry.atlassian.net/wiki'')],
      command = [''--transport'', ''streamable-http'', ''--host'', ''0.0.0.0'',
                 ''--port'', toString MCP_PORT],
      healthCheck =
        \<lparr>healthCheck_command =
           [''CMD-SHELL'',
            ''wget -qO- http://localhost:'' @ toString MCP_PORT @ ''/healthz || exit 1''],
         healthCheck_interval = seconds 30,
         timeout = seconds 5,
         retries = 3,
         startPeriod = seconds 15\<rparr>\<rparr>"

definition McpService_props_alb :: "string \<Rightarrow> string \<Rightarrow> string \<Rightarrow> FargateServiceProps" where
  "McpService_props_alb cluster' taskDef mcpSG =
     \<lparr>cluster = cluster',
      serviceName = ''mcp-atlassian'',
      taskDefinition = taskDef,
      desiredCount = 1,
      securityGroups = [mcpSG],
      vpcSubnets = \<lparr>selection_subnetType = PRIVATE_WITH_EGRESS\<rparr>,
      enableExecuteCommand = True,
      circuitBreaker = \<lparr>enable = True, rollback = True\<rparr>,
      assignPublicIp = None\<rparr>"

definition McpAlb_props :: "string \<Rightarrow> ApplicationLoadBalancerProps" where
  "McpAlb_props vpc =
     \<lparr>loadBalancerName = ''mcp-atlassian-alb'',
      loadBalancer_vpc = vpc,
      internetFacing = True\<rparr>"

definition McpListener_props :: BaseApplicationListenerProps where
  "McpListener_props = \<lparr>listener_port = 80, listener_protocol = HTTP\<rparr>"

definition McpTargets_props :: "string \<Rightarrow> AddApplicationTargetsProps" where
  "McpTargets_props service =
     \<lparr>targets_port = MCP_PORT,
      targets_protocol = HTTP,
      targets = [service],
      targets_healthCheck =
        \<lparr>path = ''/healthz'',
         targetGroup_interval = seconds 30,
         healthyThresholdCount = 2,
         unhealthyThresholdCount = 3\<rparr>\<rparr>"

definition AlbEndpoint_props :: "string \<Rightarrow> CfnOutputProps" where
  "AlbEndpoint_props alb =
     \<lparr>output_value = [Text ''http://'', Attr alb ''loadBalancerDnsName''],
      output_description =
        ''Public URL for the MCP server (use as MCP Server URL in LangBuilder)''\<rparr>"

definition namespace_options_alb :: "string \<Rightarrow> CloudMapNamespaceOptions" where
  "namespace_options_alb vpc = \<lparr>namespace_name = ''mcp.internal'', namespace_vpc = vpc\<rparr>"

definition cloudMap_options_alb :: CloudMapOptions where
  "cloudMap_options_alb = \<lparr>cloudMap_name = ''atlassian''\<rparr>"

definition ServiceDiscoveryEndpoint_props_alb :: CfnOutputProps where
  "ServiceDiscoveryEndpoint_props_alb =
     \<lparr>output_value = [Text (''atlassian.mcp.internal:'' @ toString MCP_PORT)],
      output_description =
        ''Internal DNS endpoint for the MCP server (from within the VPC)''\<rparr>"

definition EcrRepoUri_props_alb :: "string \<Rightarrow> CfnOutputProps" where
  "EcrRepoUri_props_alb ecrRepo =
     \<lparr>output_value = [Attr ecrRepo ''repositoryUri''],
      output_description = ''ECR repository URI for pushing custom images''\<rparr>"

definition ClusterName_props_alb :: "string \<Rightarrow> CfnOutputProps" where
  "ClusterName_props_alb cluster' =
     \<lparr>output_value = [Attr cluster' ''clusterName''],
      output_description =
        ''ECS cluster name (for aws ecs execute-command debugging)''\<rparr>"

definition McpAtlassianStack_alb :: "Context \<Rightarrow> Stack" where
  "McpAtlassianStack_alb ctx =
    (let existingVpcName = tryGetContext ctx ''existingVpcName'';
         allowedCidr = nullish (tryGetContext ctx ''allowedCidr'') ''10.0.0.0/16'';
         s = emptyStack;
         (vpc, s) =
           (if truthy existingVpcName
            then (''ImportedVpc'',
                  addChild ''ImportedVpc''
                    (ImportedVpc (ImportedVpc_props_alb (the existingVpcName))) s)
            else (''McpVpc'', addChild ''McpVpc'' (Vpc McpVpc_props_alb) s));
         ecrRepo = ''McpAtlassianRepo'';
         s = addChild ecrRepo (Repository McpAtlassianRepo_props_alb) s;
         dockerImage = ''McpAtlassianImage'';
         s = addChild dockerImage (DockerImageAsset McpAtlassianImage_props_alb) s;
         cluster = ''McpCluster'';
         s = addChild cluster (Cluster (McpCluster_props_alb vpc)) s;
         mcpSG = ''McpSecurityGroup'';
         s = addChild mcpSG (SecurityGroup (McpSecurityGroup_props_alb vpc)) s;
         s = addIngressRule mcpSG (ipv4 allowedCidr) (tcp MCP_PORT)
               ''Allow MCP traffic from LangBuilder'' s;
         logGroup = ''McpLogGroup'';
         s = addChild logGroup (LogGroup McpLogGroup_props_alb) s;
         taskExecutionRole = ''TaskExecutionRole'';
         s = addChild taskExecutionRole (Role TaskExecutionRole_props_alb) s;
         taskRole = ''TaskRole'';
         s = addChild taskRole (Role TaskRole_props_alb) s;
         taskDef = ''McpTaskDef'';
         s = addChild taskDef
               (FargateTaskDefinition (McpTaskDef_props_alb taskExecutionRole taskRole)) s;
         s = addChild ''mcp-atlassian''
               (ContainerDefinition taskDef (container_props_alb dockerImage logGroup)) s;
         service = ''McpService'';
         s = addChild service (FargateService (McpService_props_alb cluster taskDef mcpSG)) s;
         alb = ''McpAlb'';
         s = addChild alb (ApplicationLoadBalancer (McpAlb_props vpc)) s;
         listener = ''McpListener'';
         s = addChild listener (ApplicationListener alb McpListener_props) s;
         s = addChild ''McpTargets''
               (ApplicationTargetGroup listener (McpTargets_props service)) s;
         s = allowFrom service alb (tcp MCP_PORT) ''Allow ALB to reach MCP server'' s;
         s = addDefaultCloudMapNamespace cluster (namespace_options_alb vpc) s;
         s = enableCloudMap service cloudMap_options_alb s;
         s = addChild ''AlbEndpoint'' (CfnOutput (AlbEndpoint_props alb)) s;
         s = addChild ''ServiceDiscoveryEndpoint''
               (CfnOutput ServiceDiscoveryEndpoint_props_alb) s;
         s = addChild ''EcrRepoUri'' (CfnOutput (EcrRepoUri_props_alb ecrRepo)) s;
         s = addChild ''ClusterName'' (CfnOutput (ClusterName_props_alb cluster)) s
     in s)"

subsection \<open>Reading a stack\<close>

text \<open>The children of a stack of one class, in the order of their creation.\<close>

definition importedVpcs :: "Stack \<Rightarrow> (string \<times> VpcLookupOptions) list" where
  "importedVpcs s = [(i, p). (i, ImportedVpc p) \<leftarrow> children s]"

definition createdVpcs :: "Stack \<Rightarrow> (string \<times> VpcProps) list" where
  "createdVpcs s = [(i, p). (i, Vpc p) \<leftarrow> children s]"

definition secretResources :: "Stack \<Rightarrow> (string \<times> SecretProps) list" where
  "secretResources s = [(i, p). (i, Secret p) \<leftarrow> children s]"

definition repositories :: "Stack \<Rightarrow> (string \<times> RepositoryProps) list" where
  "repositories s = [(i, p). (i, Repository p) \<leftarrow> children s]"

definition securityGroupResources :: "Stack \<Rightarrow> (string \<times> SecurityGroupProps) list" where
  "securityGroupResources s = [(i, p). (i, SecurityGroup p) \<leftarrow> children s]"


definition containers :: "Stack \<Rightarrow> (string \<times> ContainerDefinitionOptions) list" where
  "containers s = [(i, p). (i, ContainerDefinition t p) \<leftarrow> children s]"





definition outputs :: "Stack \<Rightarrow> (string \<times> Fragment list) list" where
  "outputs s = [(i, output_value p). (i, CfnOutput p) \<leftarrow> children s]"

definition containerSecrets :: "Stack \<Rightarrow> (string \<times> EcsSecret) list" where
  "containerSecrets s =
     concat (map (\<lambda>(i, p). case secrets p of None \<Rightarrow> [] | Some kvs \<Rightarrow> kvs) (containers s))"

definition containerEnvironment :: "Stack \<Rightarrow> (string \<times> string) list" where
  "containerEnvironment s =
     concat (map (\<lambda>(i, p). case environment p of None \<Rightarrow> [] | Some kvs \<Rightarrow> kvs)
       (containers s))"

definition containerCommands :: "Stack \<Rightarrow> string list list" where
  "containerCommands s = map (\<lambda>(i, p). command p) (containers s)"


definition repositoryRemovalPolicies :: "Stack \<Rightarrow> RemovalPolicy list" where
  "repositoryRemovalPolicies s = map (\<lambda>(i, p). repository_removalPolicy p) (repositories s)"

definition securityGroupDescriptions :: "Stack \<Rightarrow> string list" where
  "securityGroupDescriptions s =
     map (\<lambda>(i, p). securityGroup_description p) (securityGroupResources s)"




text \<open>
  The path of the URL in a shell command such as
  \<open>wget -qO- http://localhost:9000/healthz || exit 1\<close>: what follows the host of the
  first \<open>://\<close>, up to the next blank.
\<close>

fun after_scheme :: "string \<Rightarrow> string" where
  "after_scheme (a # b # c # rest) =
     (if [a, b, c] = ''://'' then rest else after_scheme (b # c # rest))"
| "after_scheme _ = []"

definition url_path :: "string \<Rightarrow> string" where
  "url_path cmd =
     takeWhile (\<lambda>c. c \<noteq> CHR '' '') (dropWhile (\<lambda>c. c \<noteq> CHR ''/'') (after_scheme cmd))"

text \<open>The paths the health checks of the containers and of the target groups probe.\<close>

definition containerHealthCheckPaths :: "Stack \<Rightarrow> string list" where
  "containerHealthCheckPaths s =
     map (\<lambda>(i, p). url_path (concat (healthCheck_command (healthCheck p)))) (containers s)"


subsection \<open>IPv4 blocks and security groups\<close>

text \<open>
  The block a string in CIDR notation \<open>a.b.c.d/n\<close> denotes: the address as a
  number below \<open>2 ^ 32\<close> and the length of the prefix. An address is in the block
  when its first \<open>n\<close> bits are those of the block.
\<close>

definition digit_val :: "char \<Rightarrow> nat option" where
  "digit_val c =
     (let k = (of_char c :: nat) in if 48 \<le> k \<and> k \<le> 57 then Some (k - 48) else None)"

fun digits_val :: "nat \<Rightarrow> string \<Rightarrow> nat option" where
  "digits_val acc [] = Some acc"
| "digits_val acc (c # cs) =
     (case digit_val c of None \<Rightarrow> None | Some d \<Rightarrow> digits_val (10 * acc + d) cs)"

definition parse_nat :: "string \<Rightarrow> nat option" where
  "parse_nat str = (if str = [] then None else digits_val 0 str)"

fun split_on :: "char \<Rightarrow> string \<Rightarrow> string list" where
  "split_on sep [] = [[]]"
| "split_on sep (c # cs) =
     (if c = sep then [] # split_on sep cs
      else (case split_on sep cs of [] \<Rightarrow> [[c]] | p # ps \<Rightarrow> (c # p) # ps))"

definition parse_cidr :: "string \<Rightarrow> (nat \<times> nat) option" where
  "parse_cidr str =
     (case split_on (CHR ''/'') str of
        [addr, len] \<Rightarrow>
          (case (map parse_nat (split_on (CHR ''.'') addr), parse_nat len) of
             ([Some a, Some b, Some c, Some d], Some n) \<Rightarrow>
               if a < 256 \<and> b < 256 \<and> c < 256 \<and> d < 256 \<and> n \<le> 32
               then Some (((a * 256 + b) * 256 + c) * 256 + d, n)
               else None
           | _ \<Rightarrow> None)
      | _ \<Rightarrow> None)"

definition in_cidr :: "nat \<Rightarrow> nat \<times> nat \<Rightarrow> bool" where
  "in_cidr a blk = (a < 2 ^ 32 \<and> a div 2 ^ (32 - snd blk) = fst blk div 2 ^ (32 - snd blk))"

definition in_block :: "string \<Rightarrow> nat \<Rightarrow> bool" where
  "in_block str a = (case parse_cidr str of None \<Rightarrow> False | Some blk \<Rightarrow> in_cidr a blk)"

text \<open>
  A security group admits inbound traffic that one of its ingress rules matches and
  no other. A rule with an IPv4 peer matches the source addresses of its block; a rule
  whose peer is a construct matches the members of that construct's security group,
  whatever their address. Every ingress rule of the two stacks guards the service.
\<close>

definition rule_admits :: "IngressRule \<Rightarrow> nat \<Rightarrow> nat \<Rightarrow> bool" where
  "rule_admits r a pt =
     (rule_port r = tcp pt \<and>
      (case rule_peer r of ipv4 blk \<Rightarrow> in_block blk a | connectable c \<Rightarrow> True))"

definition admits :: "Stack \<Rightarrow> nat \<Rightarrow> nat \<Rightarrow> bool" where
  "admits s a pt = list_ex (\<lambda>r. rule_admits r a pt) (ingressRules s)"

definition vpcBlocks :: "Stack \<Rightarrow> string list" where
  "vpcBlocks s = map (\<lambda>(i, p). case ipAddresses p of cidr blk \<Rightarrow> blk) (createdVpcs s)"

subsection \<open>What the two versions share\<close>

text \<open>
  The children that exist for the exposure of the service (load balancer, listener,
  target group, the output of the balancer's address) or for its credentials (the
  secret, the output of its ARN).
\<close>

fun exposureOrCredential :: "string \<times> Construct \<Rightarrow> bool" where
  "exposureOrCredential (i, Secret p) = True"
| "exposureOrCredential (i, ApplicationLoadBalancer p) = True"
| "exposureOrCredential (i, ApplicationListener b p) = True"
| "exposureOrCredential (i, ApplicationTargetGroup l p) = True"
| "exposureOrCredential (i, CfnOutput p) = (i = ''SecretArn'' \<or> i = ''AlbEndpoint'')"
| "exposureOrCredential (i, c) = False"

text \<open>
  A construct without the properties in which the two versions differ: the removal
  policy of the repository, the description of the security group, and the secrets,
  environment, command and health-check command of the container.
\<close>

fun withoutDrift :: "Construct \<Rightarrow> Construct" where
  "withoutDrift (Repository p) = Repository (p\<lparr>repository_removalPolicy := RETAIN\<rparr>)"
| "withoutDrift (SecurityGroup p) = SecurityGroup (p\<lparr>securityGroup_description := []\<rparr>)"
| "withoutDrift (ContainerDefinition t p) =
     ContainerDefinition t
       (p\<lparr>secrets := None, environment := None, command := [],
          healthCheck := (healthCheck p)\<lparr>healthCheck_command := []\<rparr>\<rparr>)"
| "withoutDrift c = c"

definition isCidrRule :: "IngressRule \<Rightarrow> bool" where
  "isCidrRule r = (case rule_peer r of ipv4 blk \<Rightarrow> True | connectable c \<Rightarrow> False)"

definition common :: "Stack \<Rightarrow> Stack" where
  "common s =
     s\<lparr>children :=
         map (\<lambda>(i, c). (i, withoutDrift c))
           (filter (\<lambda>ic. \<not> exposureOrCredential ic) (children s)),
       ingressRules := filter isCidrRule (ingressRules s),
       grants := []\<rparr>"

section \<open>Properties of the stacks\<close>

subsection \<open>Evaluation\<close>

lemmas stack_ops = Let_def addChild_def emptyStack_def addIngressRule_def allowFrom_def
  grantRead_def addDefaultCloudMapNamespace_def enableCloudMap_def tryGetContext_def
  nullish_def

lemma toString_9000: "toString 9000 = ''9000''"
  by (simp add: toString.simps digit_char_def)

lemma toString_MCP_PORT: "toString MCP_PORT = ''9000''"
  by (simp add: MCP_PORT_def toString_9000)

lemma truthy_iff: "truthy v \<longleftrightarrow> (\<exists>n. v = Some n \<and> n \<noteq> [])"
  by (cases v) (simp_all add: truthy_def)

text \<open>The two blocks of the default deployment, and that they share no address.\<close>

lemma parse_cidr_vpc: "parse_cidr ''10.1.0.0/16'' = Some (167837696, 16)"
  by (simp add: parse_cidr_def parse_nat_def digit_val_def Let_def)

lemma parse_cidr_default: "parse_cidr ''10.0.0.0/16'' = Some (167772160, 16)"
  by (simp add: parse_cidr_def parse_nat_def digit_val_def Let_def)

lemma blocks_disjoint: "\<not> (in_block ''10.1.0.0/16'' a \<and> in_block ''10.0.0.0/16'' a)"
  by (simp add: in_block_def in_cidr_def parse_cidr_vpc parse_cidr_default)

text \<open>
  The props objects that are the same text in both versions of the stack are equal,
  and those that differ are equal once the differing properties are set aside.
\<close>

lemma props_alb_eq:
  "ImportedVpc_props_alb n = ImportedVpc_props n"
  "McpVpc_props_alb = McpVpc_props"
  "McpAtlassianImage_props_alb = McpAtlassianImage_props"
  "McpCluster_props_alb vpc = McpCluster_props vpc"
  "McpLogGroup_props_alb = McpLogGroup_props"
  "TaskExecutionRole_props_alb = TaskExecutionRole_props"
  "TaskRole_props_alb = TaskRole_props"
  "McpTaskDef_props_alb er tr = McpTaskDef_props er tr"
  "McpService_props_alb cl td sg = McpService_props cl td sg"
  "namespace_options_alb vpc = namespace_options vpc"
  "cloudMap_options_alb = cloudMap_options"
  "ServiceDiscoveryEndpoint_props_alb = ServiceDiscoveryEndpoint_props"
  "EcrRepoUri_props_alb repo = EcrRepoUri_props repo"
  "ClusterName_props_alb cl = ClusterName_props cl"
  by (simp_all add: ImportedVpc_props_alb_def ImportedVpc_props_def McpVpc_props_alb_def
      McpVpc_props_def McpAtlassianImage_props_alb_def McpAtlassianImage_props_def
      McpCluster_props_alb_def McpCluster_props_def McpLogGroup_props_alb_def
      McpLogGroup_props_def TaskExecutionRole_props_alb_def TaskExecutionRole_props_def
      TaskRole_props_alb_def TaskRole_props_def McpTaskDef_props_alb_def McpTaskDef_props_def
      McpService_props_alb_def McpService_props_def namespace_options_alb_def
      namespace_options_def cloudMap_options_alb_def cloudMap_options_def
      ServiceDiscoveryEndpoint_props_alb_def ServiceDiscoveryEndpoint_props_def
      EcrRepoUri_props_alb_def EcrRepoUri_props_def ClusterName_props_alb_def
      ClusterName_props_def)

lemma props_without_drift:
  "McpAtlassianRepo_props_alb\<lparr>repository_removalPolicy := RETAIN\<rparr> =
     McpAtlassianRepo_props\<lparr>repository_removalPolicy := RETAIN\<rparr>"
  "(McpSecurityGroup_props_alb vpc)\<lparr>securityGroup_description := []\<rparr> =
     (McpSecurityGroup_props vpc)\<lparr>securityGroup_description := []\<rparr>"
  "(container_props_alb im lg)
     \<lparr>secrets := None, environment := None, command := [],
      healthCheck := (healthCheck (container_props_alb im lg))\<lparr>healthCheck_command := []\<rparr>\<rparr> =
   (container_props im lg sec)
     \<lparr>secrets := None, environment := None, command := [],
      healthCheck := (healthCheck (container_props im lg sec))\<lparr>healthCheck_command := []\<rparr>\<rparr>"
  by (simp_all add: McpAtlassianRepo_props_alb_def McpAtlassianRepo_props_def
      McpSecurityGroup_props_alb_def McpSecurityGroup_props_def container_props_alb_def
      container_props_def)

subsection \<open>Credentials\<close>

text \<open>
  C1, as the code has it. For every context, the load-balanced stack (the one that
  leaves authentication to each request) has no secret resource, grants no read access
  and passes the container no secret. The container receives three plain environment
  variables, not two: the flag \<open>ATLASSIAN_OAUTH_ENABLE\<close> and the base URLs of Jira and
  Confluence.
\<close>

theorem per_request_oauth_no_secret:
  "secretResources (McpAtlassianStack_alb ctx) = [] \<and>
   grants (McpAtlassianStack_alb ctx) = [] \<and>
   containerSecrets (McpAtlassianStack_alb ctx) = [] \<and>
   containerEnvironment (McpAtlassianStack_alb ctx) =
     [(''ATLASSIAN_OAUTH_ENABLE'', ''true''),
      (''JIRA_URL'', ''https://cloudgeometry.atlassian.net''),
      (''CONFLUENCE_URL'', ''https://cloudgeometry.atlassian.net/wiki'')]"
  by (simp add: McpAtlassianStack_alb_def stack_ops secretResources_def containerSecrets_def
      containerEnvironment_def containers_def container_props_alb_def)

text \<open>
  C1 as stated fails: with an empty context the environment of the container has
  three entries, the first of which is not a base URL.
\<close>

theorem per_request_oauth_three_variables:
  "map fst (containerEnvironment (McpAtlassianStack_alb Map.empty)) =
     [''ATLASSIAN_OAUTH_ENABLE'', ''JIRA_URL'', ''CONFLUENCE_URL''] \<and>
   length (containerEnvironment (McpAtlassianStack_alb Map.empty)) \<noteq> 2"
  by (simp add: McpAtlassianStack_alb_def stack_ops containerEnvironment_def containers_def
      container_props_alb_def truthy_def)


subsection \<open>Network\<close>

text \<open>
  C3, as the code has it. The constructor tests the name with \<open>if (existingVpcName)\<close>.
  For every context whose \<open>existingVpcName\<close> is a non-empty string, both stacks look the
  VPC of that name up (nothing checks that it exists) and create no VPC. For every
  context where the key is absent or is the empty string, both stacks create exactly
  one VPC, with a public and a private-with-egress subnet tier, at most two
  availability zones and one NAT gateway, and import none.
\<close>

theorem vpc_imported_or_created:
  "(\<forall>n. ctx ''existingVpcName'' = Some n \<and> n \<noteq> [] \<longrightarrow>
      importedVpcs (McpAtlassianStack ctx) = [(''ImportedVpc'', \<lparr>lookup_vpcName = n\<rparr>)] \<and>
      createdVpcs (McpAtlassianStack ctx) = [] \<and>
      importedVpcs (McpAtlassianStack_alb ctx) = [(''ImportedVpc'', \<lparr>lookup_vpcName = n\<rparr>)] \<and>
      createdVpcs (McpAtlassianStack_alb ctx) = []) \<and>
   (ctx ''existingVpcName'' = None \<or> ctx ''existingVpcName'' = Some [] \<longrightarrow>
      importedVpcs (McpAtlassianStack ctx) = [] \<and>
      createdVpcs (McpAtlassianStack ctx) =
        [(''McpVpc'',
          \<lparr>vpcName = ''mcp-atlassian-vpc'', ipAddresses = cidr ''10.1.0.0/16'',
           maxAzs = 2, natGateways = 1,
           subnetConfiguration =
             [\<lparr>cidrMask = 24, subnet_name = ''mcp-public'', subnetType = PUBLIC\<rparr>,
              \<lparr>cidrMask = 24, subnet_name = ''mcp-private'',
               subnetType = PRIVATE_WITH_EGRESS\<rparr>]\<rparr>)] \<and>
      importedVpcs (McpAtlassianStack_alb ctx) = [] \<and>
      createdVpcs (McpAtlassianStack_alb ctx) = createdVpcs (McpAtlassianStack ctx))"
proof (intro conjI allI impI)
  fix n
  assume "ctx ''existingVpcName'' = Some n \<and> n \<noteq> []"
  then have t: "truthy (ctx ''existingVpcName'')" and n: "the (ctx ''existingVpcName'') = n"
    by (simp_all add: truthy_def)
  from t n show "importedVpcs (McpAtlassianStack ctx) = [(''ImportedVpc'', \<lparr>lookup_vpcName = n\<rparr>)]"
    by (simp add: McpAtlassianStack_def stack_ops importedVpcs_def ImportedVpc_props_def)
  from t show "createdVpcs (McpAtlassianStack ctx) = []"
    by (simp add: McpAtlassianStack_def stack_ops createdVpcs_def)
  from t n show "importedVpcs (McpAtlassianStack_alb ctx) = [(''ImportedVpc'', \<lparr>lookup_vpcName = n\<rparr>)]"
    by (simp add: McpAtlassianStack_alb_def stack_ops importedVpcs_def ImportedVpc_props_alb_def)
  from t show "createdVpcs (McpAtlassianStack_alb ctx) = []"
    by (simp add: McpAtlassianStack_alb_def stack_ops createdVpcs_def)
next
  assume "ctx ''existingVpcName'' = None \<or> ctx ''existingVpcName'' = Some []"
  then have f: "\<not> truthy (ctx ''existingVpcName'')"
    by (auto simp add: truthy_def)
  from f show "importedVpcs (McpAtlassianStack ctx) = []"
    by (simp add: McpAtlassianStack_def stack_ops importedVpcs_def)
  from f show "createdVpcs (McpAtlassianStack ctx) =
        [(''McpVpc'',
          \<lparr>vpcName = ''mcp-atlassian-vpc'', ipAddresses = cidr ''10.1.0.0/16'',
           maxAzs = 2, natGateways = 1,
           subnetConfiguration =
             [\<lparr>cidrMask = 24, subnet_name = ''mcp-public'', subnetType = PUBLIC\<rparr>,
              \<lparr>cidrMask = 24, subnet_name = ''mcp-private'',
               subnetType = PRIVATE_WITH_EGRESS\<rparr>]\<rparr>)]"
    by (simp add: McpAtlassianStack_def stack_ops createdVpcs_def McpVpc_props_def)
  from f show "importedVpcs (McpAtlassianStack_alb ctx) = []"
    by (simp add: McpAtlassianStack_alb_def stack_ops importedVpcs_def)
  from f show "createdVpcs (McpAtlassianStack_alb ctx) = createdVpcs (McpAtlassianStack ctx)"
    by (simp add: McpAtlassianStack_alb_def McpAtlassianStack_def stack_ops createdVpcs_def
        McpVpc_props_def McpVpc_props_alb_def)
qed

text \<open>The two branches of C3 at concrete contexts.\<close>

theorem vpc_imported_or_created_witness:
  "importedVpcs (McpAtlassianStack [''existingVpcName'' \<mapsto> ''shared-vpc'']) =
     [(''ImportedVpc'', \<lparr>lookup_vpcName = ''shared-vpc''\<rparr>)] \<and>
   createdVpcs (McpAtlassianStack_alb [''existingVpcName'' \<mapsto> ''shared-vpc'']) = [] \<and>
   importedVpcs (McpAtlassianStack Map.empty) = [] \<and>
   map fst (createdVpcs (McpAtlassianStack_alb Map.empty)) = [''McpVpc'']"
  using vpc_imported_or_created [of "[''existingVpcName'' \<mapsto> ''shared-vpc'']"]
    vpc_imported_or_created [of Map.empty]
  by simp

text \<open>
  C3 as stated fails: a context that sets \<open>existingVpcName\<close> to the empty string gets
  a created VPC and no imported one.
\<close>

theorem empty_vpc_name_creates:
  "importedVpcs (McpAtlassianStack [''existingVpcName'' \<mapsto> []]) = [] \<and>
   map fst (createdVpcs (McpAtlassianStack [''existingVpcName'' \<mapsto> []])) = [''McpVpc'']"
  by (simp add: McpAtlassianStack_def stack_ops importedVpcs_def createdVpcs_def truthy_def)

subsection \<open>Exposure\<close>






text \<open>
  C10. In the stack of \<open>cdk/lib/mcp-atlassian-stack.ts\<close>, when the context has neither
  \<open>existingVpcName\<close> nor \<open>allowedCidr\<close>, the created VPC has the block \<open>10.1.0.0/16\<close> and
  the only ingress rule admits the block \<open>10.0.0.0/16\<close>. No address is in both blocks,
  so the security group admits no traffic, on any port, from an address of the VPC.
\<close>

theorem default_vpc_not_admitted:
  assumes "ctx ''existingVpcName'' = None" and "ctx ''allowedCidr'' = None"
  shows "vpcBlocks (McpAtlassianStack ctx) = [''10.1.0.0/16''] \<and>
         map rule_peer (ingressRules (McpAtlassianStack ctx)) = [ipv4 ''10.0.0.0/16''] \<and>
         (\<forall>a. \<not> (in_block ''10.1.0.0/16'' a \<and> in_block ''10.0.0.0/16'' a)) \<and>
         (\<forall>a pt. in_block ''10.1.0.0/16'' a \<longrightarrow> \<not> admits (McpAtlassianStack ctx) a pt)"
proof -
  have f: "\<not> truthy (ctx ''existingVpcName'')"
    using assms(1) by (simp add: truthy_def)
  have v: "vpcBlocks (McpAtlassianStack ctx) = [''10.1.0.0/16'']"
    using f by (simp add: McpAtlassianStack_def stack_ops vpcBlocks_def createdVpcs_def
        McpVpc_props_def)
  have r: "ingressRules (McpAtlassianStack ctx) =
      [\<lparr>rule_target = ''McpSecurityGroup'', rule_peer = ipv4 ''10.0.0.0/16'',
        rule_port = tcp MCP_PORT, rule_description = ''Allow MCP traffic from LangBuilder''\<rparr>]"
    using f assms(2) by (simp add: McpAtlassianStack_def stack_ops)
  have a: "\<not> admits (McpAtlassianStack ctx) a pt" if "in_block ''10.1.0.0/16'' a" for a pt
    using that blocks_disjoint [of a] by (simp add: admits_def rule_admits_def r)
  from v r a blocks_disjoint show ?thesis
    by simp
qed

text \<open>
  C10 at the empty context: \<open>10.1.2.3\<close> is an address of the created VPC and is not
  admitted on port 9000.
\<close>

theorem default_vpc_not_admitted_witness:
  "in_block ''10.1.0.0/16'' 167838211 \<and>
   \<not> admits (McpAtlassianStack Map.empty) 167838211 9000 \<and>
   vpcBlocks (McpAtlassianStack Map.empty) = [''10.1.0.0/16'']"
proof -
  have i: "in_block ''10.1.0.0/16'' 167838211"
    by (simp add: in_block_def in_cidr_def parse_cidr_vpc)
  from default_vpc_not_admitted [of Map.empty] i show ?thesis
    by simp
qed

subsection \<open>Outputs\<close>

text \<open>
  C7. For every context, the outputs of the stack with shared credentials are exactly
  four: the ARN of the secret, as an attribute of the secret construct (no output
  holds the template of the secret as text); the endpoint \<open>atlassian.mcp.internal:9000\<close>, which is the Cloud Map name of the
  service, a dot, the name of the namespace, a colon and the port; the URI of the
  repository; and the name of the cluster.
\<close>

theorem shared_credentials_outputs:
  "outputs (McpAtlassianStack ctx) =
     [(''SecretArn'', [Attr ''AtlassianCredentials'' ''secretArn'']),
      (''ServiceDiscoveryEndpoint'', [Text ''atlassian.mcp.internal:9000'']),
      (''EcrRepoUri'', [Attr ''McpAtlassianRepo'' ''repositoryUri'']),
      (''ClusterName'', [Attr ''McpCluster'' ''clusterName''])] \<and>
   map (\<lambda>(sv, opts). (sv, cloudMap_name opts)) (cloudMapServices (McpAtlassianStack ctx)) =
     [(''McpService'', ''atlassian'')] \<and>
   map (\<lambda>(cl, opts). (cl, namespace_name opts)) (cloudMapNamespaces (McpAtlassianStack ctx)) =
     [(''McpCluster'', ''mcp.internal'')] \<and>
   ''atlassian.mcp.internal:9000'' =
     ''atlassian'' @ ''.'' @ ''mcp.internal'' @ '':'' @ toString MCP_PORT \<and>
   map fst (secretResources (McpAtlassianStack ctx)) = [''AtlassianCredentials''] \<and>
   map fst (repositories (McpAtlassianStack ctx)) = [''McpAtlassianRepo''] \<and>
   Text (secretStringTemplate (generateSecretString AtlassianCredentials_props)) \<notin>
     set (concat (map snd (outputs (McpAtlassianStack ctx))))"
  by (simp add: McpAtlassianStack_def stack_ops outputs_def secretResources_def repositories_def
      SecretArn_props_def ServiceDiscoveryEndpoint_props_def EcrRepoUri_props_def
      ClusterName_props_def cloudMap_options_def namespace_options_def toString_MCP_PORT
      AtlassianCredentials_props_def JSON_stringify_def)

subsection \<open>The two versions compared\<close>

text \<open>
  C8, as the code has it. For every context, the two stacks are the same stack once
  the constructs of the exposure (load balancer, listener, target group, the ingress
  rule from the balancer, the output of its address) and of the credentials (secret,
  grant, the secrets or environment of the container, the output of the ARN) are set
  aside together with four properties in which the two versions differ: the removal
  policy of the repository (\<open>RETAIN\<close> against \<open>DESTROY\<close>), the command of the container,
  the command of its health check (path \<open>/mcp\<close> against \<open>/healthz\<close>) and the
  description of the security group.
\<close>

theorem variants_agree_up_to_drift:
  "common (McpAtlassianStack_alb ctx) = common (McpAtlassianStack ctx) \<and>
   repositoryRemovalPolicies (McpAtlassianStack ctx) = [RETAIN] \<and>
   repositoryRemovalPolicies (McpAtlassianStack_alb ctx) = [DESTROY] \<and>
   containerCommands (McpAtlassianStack ctx) = [[''--transport'', ''http'', ''--port'', ''9000'']] \<and>
   containerCommands (McpAtlassianStack_alb ctx) =
     [[''--transport'', ''streamable-http'', ''--host'', ''0.0.0.0'', ''--port'', ''9000'']] \<and>
   containerHealthCheckPaths (McpAtlassianStack ctx) = [''/mcp''] \<and>
   containerHealthCheckPaths (McpAtlassianStack_alb ctx) = [''/healthz''] \<and>
   securityGroupDescriptions (McpAtlassianStack ctx) =
     [''MCP Atlassian server '' @ em_dash @ '' inbound from LangBuilder only''] \<and>
   securityGroupDescriptions (McpAtlassianStack_alb ctx) =
     [''MCP Atlassian server - inbound from LangBuilder only'']"
proof -
  have "common (McpAtlassianStack_alb ctx) = common (McpAtlassianStack ctx)"
    by (simp add: McpAtlassianStack_def McpAtlassianStack_alb_def common_def isCidrRule_def
        stack_ops props_alb_eq props_without_drift)
  moreover have "repositoryRemovalPolicies (McpAtlassianStack ctx) = [RETAIN]"
    and "repositoryRemovalPolicies (McpAtlassianStack_alb ctx) = [DESTROY]"
    by (simp_all add: McpAtlassianStack_def McpAtlassianStack_alb_def stack_ops
        repositoryRemovalPolicies_def repositories_def McpAtlassianRepo_props_def
        McpAtlassianRepo_props_alb_def)
  moreover have
    "containerCommands (McpAtlassianStack ctx) = [[''--transport'', ''http'', ''--port'', ''9000'']]"
    and "containerCommands (McpAtlassianStack_alb ctx) =
      [[''--transport'', ''streamable-http'', ''--host'', ''0.0.0.0'', ''--port'', ''9000'']]"
    and "containerHealthCheckPaths (McpAtlassianStack ctx) = [''/mcp'']"
    and "containerHealthCheckPaths (McpAtlassianStack_alb ctx) = [''/healthz'']"
    by (simp_all add: McpAtlassianStack_def McpAtlassianStack_alb_def stack_ops
        containerCommands_def containerHealthCheckPaths_def containers_def url_path_def
        container_props_def container_props_alb_def toString_MCP_PORT)
  moreover have "securityGroupDescriptions (McpAtlassianStack ctx) =
      [''MCP Atlassian server '' @ em_dash @ '' inbound from LangBuilder only'']"
    and "securityGroupDescriptions (McpAtlassianStack_alb ctx) =
      [''MCP Atlassian server - inbound from LangBuilder only'']"
    by (simp_all add: McpAtlassianStack_def McpAtlassianStack_alb_def stack_ops
        securityGroupDescriptions_def securityGroupResources_def McpSecurityGroup_props_def
        McpSecurityGroup_props_alb_def)
  ultimately show ?thesis
    by blast
qed

text \<open>
  C8 as stated fails: with an empty context the two versions differ in the removal
  policy of the repository, in the command of the container and in the path its health
  check fetches.
\<close>

theorem variants_differ:
  "repositoryRemovalPolicies (McpAtlassianStack Map.empty) \<noteq>
     repositoryRemovalPolicies (McpAtlassianStack_alb Map.empty) \<and>
   containerCommands (McpAtlassianStack Map.empty) \<noteq>
     containerCommands (McpAtlassianStack_alb Map.empty) \<and>
   containerHealthCheckPaths (McpAtlassianStack Map.empty) \<noteq>
     containerHealthCheckPaths (McpAtlassianStack_alb Map.empty)"
  by (simp add: McpAtlassianStack_def McpAtlassianStack_alb_def stack_ops truthy_def
      repositoryRemovalPolicies_def repositories_def McpAtlassianRepo_props_def
      McpAtlassianRepo_props_alb_def containerCommands_def containerHealthCheckPaths_def
      containers_def url_path_def container_props_def container_props_alb_def
      toString_MCP_PORT)

end
